theory Spec2Isabelle
  imports Main
begin

section \<open>Documents and the entity store\<close>

text \<open>
  The four collections of the library catalog. Identifiers are opaque strings: the
  controllers receive them as text (\<open>req.params.id\<close>, \<open>req.body.id\<close>) and hand them to
  the store unchanged. A collection is a list of documents, in insertion order.
\<close>

record genre =
  g_id :: string
  g_name :: string

record author =
  a_id :: string
  a_first_name :: string
  a_family_name :: string
  a_date_of_birth :: "nat option"
  a_date_of_death :: "nat option"

record book =
  b_id :: string
  b_title :: string
  b_author :: string
  b_summary :: string
  b_isbn :: string
  b_genre :: "string list"

record bookinstance =
  i_id :: string
  i_book :: "string option"
  i_imprint :: string
  i_status :: string
  i_due_back :: "nat option"

record store =
  genres :: "genre list"
  authors :: "author list"
  books :: "book list"
  bookinstances :: "bookinstance list"

text \<open>
  What the process supplies besides the request: the identifier a freshly constructed
  document receives, the clock (\<open>Date.now\<close>), the two date functions of the
  validation library, \<open>isISO8601\<close> and \<open>toDate\<close>, and two functions of the store
  driver: which texts it accepts as an identifier for a path of type \<open>ObjectId\<close>, and
  which two names it finds equal under the collation \<open>{ locale: "en", strength: 2 }\<close>,
  the comparison that ignores letter case. The code of none of them is part of the
  repository.
\<close>

record env =
  newid :: string
  now :: nat
  isISO8601 :: "string \<Rightarrow> bool"
  toDate :: "string \<Rightarrow> nat option"
  isObjectId :: "string \<Rightarrow> bool"
  collation_equal :: "string \<Rightarrow> string \<Rightarrow> bool"

text \<open>Setting a path of type \<open>ObjectId\<close> of a new document: a text that does not cast,
  the empty text among them, leaves the path \<open>undefined\<close>.\<close>

definition castObjectId :: "env \<Rightarrow> string \<Rightarrow> string option" where
  "castObjectId e v = (if v \<noteq> [] \<and> isObjectId e v then Some v else None)"

subsection \<open>Store queries\<close>

fun findById :: "('d \<Rightarrow> string) \<Rightarrow> string \<Rightarrow> 'd list \<Rightarrow> 'd option" where
  "findById key i [] = None"
| "findById key i (d # ds) = (if key d = i then Some d else findById key i ds)"

text \<open>\<open>findByIdAndRemove\<close>: the first document carrying the identifier is removed.\<close>

fun findByIdAndRemove :: "('d \<Rightarrow> string) \<Rightarrow> string \<Rightarrow> 'd list \<Rightarrow> 'd list" where
  "findByIdAndRemove key i [] = []"
| "findByIdAndRemove key i (d # ds) =
     (if key d = i then ds else d # findByIdAndRemove key i ds)"

text \<open>
  \<open>findByIdAndUpdate\<close>: the first document carrying the identifier is replaced by the
  candidate; the call returns the document as it was found, or nothing (\<open>null\<close>) when
  no document carries the identifier, in which case the collection is unchanged.
\<close>

fun findByIdAndUpdate :: "('d \<Rightarrow> string) \<Rightarrow> string \<Rightarrow> 'd \<Rightarrow> 'd list \<Rightarrow> 'd list" where
  "findByIdAndUpdate key i c [] = []"
| "findByIdAndUpdate key i c (d # ds) =
     (if key d = i then c # ds else d # findByIdAndUpdate key i c ds)"

definition genre_url :: "genre \<Rightarrow> string" where
  "genre_url g = ''/catalog/genre/'' @ g_id g"

definition author_url :: "author \<Rightarrow> string" where
  "author_url a = ''/catalog/author/'' @ a_id a"

definition book_url :: "book \<Rightarrow> string" where
  "book_url b = ''/catalog/book/'' @ b_id b"

definition bookinstance_url :: "bookinstance \<Rightarrow> string" where
  "bookinstance_url bi = ''/catalog/bookinstance/'' @ i_id bi"

text \<open>\<open>Book.find({ genre: id }, "title summary")\<close>: the books whose genre array holds
  the identifier, projected to identifier, title and summary.\<close>

definition project_title_summary :: "book \<Rightarrow> string \<times> string \<times> string" where
  "project_title_summary b = (b_id b, b_title b, b_summary b)"

definition books_in_genre :: "string \<Rightarrow> store \<Rightarrow> (string \<times> string \<times> string) list" where
  "books_in_genre i s =
     map project_title_summary (filter (\<lambda>b. i \<in> set (b_genre b)) (books s))"

definition books_by_author :: "string \<Rightarrow> store \<Rightarrow> (string \<times> string \<times> string) list" where
  "books_by_author i s =
     map project_title_summary (filter (\<lambda>b. b_author b = i) (books s))"

definition instances_of_book :: "string \<Rightarrow> store \<Rightarrow> bookinstance list" where
  "instances_of_book i s = filter (\<lambda>bi. i_book bi = Some i) (bookinstances s)"

text \<open>\<open>populate("author").populate("genre")\<close>: the referenced documents in place of
  the identifiers; a reference to no document is left out.\<close>

record populated_book =
  pb_book :: book
  pb_author :: "author option"
  pb_genre :: "genre list"

definition populate_book :: "store \<Rightarrow> book \<Rightarrow> populated_book" where
  "populate_book s b =
     \<lparr> pb_book = b,
       pb_author = findById a_id (b_author b) (authors s),
       pb_genre = List.map_filter (\<lambda>i. findById g_id i (genres s)) (b_genre b) \<rparr>"

record populated_instance =
  pi_instance :: bookinstance
  pi_book :: "book option"

definition populate_instance :: "store \<Rightarrow> bookinstance \<Rightarrow> populated_instance" where
  "populate_instance s bi =
     \<lparr> pi_instance = bi,
       pi_book = (case i_book bi of None \<Rightarrow> None | Some b \<Rightarrow> findById b_id b (books s)) \<rparr>"

section \<open>Responses\<close>

record verror =
  err_path :: string
  err_msg :: string
  err_value :: string

datatype cval =
    VNull
  | VStr string
  | VNum nat
  | VErrors "verror list"
  | VGenre genre
  | VGenres "(genre \<times> bool) list"
  | VAuthor author
  | VAuthors "author list"
  | VBook book
  | VPopBook populated_book
  | VBooks "book list"
  | VBookSummaries "(string \<times> string \<times> string) list"
  | VBookTitles "(string \<times> string) list"
  | VInstance bookinstance
  | VPopInstance populated_instance
  | VInstances "bookinstance list"

type_synonym ctx = "(string \<times> cval) list"

text \<open>
  What a handler does with \<open>res\<close> and \<open>next\<close>, in order: a redirect, a template handed
  to the renderer with its data context, or an error passed to \<open>next\<close>: one built by
  the handler with a status, or one thrown inside the handler and forwarded by
  \<open>asyncHandler\<close>.
\<close>

datatype failure = HttpError nat string | Thrown string

datatype effect =
    Redirect string
  | RenderFile string ctx
  | Next failure

type_synonym outcome = "store \<times> effect list"

section \<open>The validation library\<close>

text \<open>
  The sanitizers and validators the controllers chain on a field. They belong to the
  validation library, not to the repository; they are modelled on code units below 256.
  A field absent from the body reads as the empty string once a sanitizer or a
  validator looks at it.
\<close>

definition toString :: "string option \<Rightarrow> string" where
  "toString raw = (case raw of None \<Rightarrow> [] | Some v \<Rightarrow> v)"

definition is_space :: "char \<Rightarrow> bool" where
  "is_space c = (c \<in> set [CHR 0x09, CHR 0x0A, CHR 0x0B, CHR 0x0C, CHR 0x0D, CHR 0x20, CHR 0xA0])"

definition trim :: "string \<Rightarrow> string" where
  "trim v = rev (dropWhile is_space (rev (dropWhile is_space v)))"

fun escape_char :: "char \<Rightarrow> string" where
  "escape_char c =
     (if c = CHR ''&'' then ''&amp;''
      else if c = CHR 0x22 then ''&quot;''
      else if c = CHR 0x27 then ''&#x27;''
      else if c = CHR ''<'' then ''&lt;''
      else if c = CHR ''>'' then ''&gt;''
      else if c = CHR ''/'' then ''&#x2F;''
      else if c = CHR 0x5C then ''&#x5C;''
      else if c = CHR 0x60 then ''&#96;''
      else [c])"

definition escape :: "string \<Rightarrow> string" where
  "escape v = concat (map escape_char v)"

definition isLength_min :: "nat \<Rightarrow> string \<Rightarrow> bool" where
  "isLength_min n v = (n \<le> length v)"

definition code_unit :: "char \<Rightarrow> nat" where
  "code_unit c = of_char c"

definition is_alnum :: "char \<Rightarrow> bool" where
  "is_alnum c =
     ((48 \<le> code_unit c \<and> code_unit c \<le> 57) \<or> (97 \<le> code_unit c \<and> code_unit c \<le> 122)
      \<or> (65 \<le> code_unit c \<and> code_unit c \<le> 90))"

definition isAlphanumeric :: "string \<Rightarrow> bool" where
  "isAlphanumeric v = (v \<noteq> [] \<and> list_all is_alnum v)"

definition verr :: "string \<Rightarrow> string \<Rightarrow> string \<Rightarrow> verror" where
  "verr p m v = \<lparr> err_path = p, err_msg = m, err_value = v \<rparr>"

text \<open>\<open>body(p, m).trim().isLength({ min: n }).escape()\<close>: the sanitized value written
  back to the body, and the errors of the field. The length is checked on the trimmed
  text, before it is escaped.\<close>

definition chain_text :: "string \<Rightarrow> string \<Rightarrow> nat \<Rightarrow> string option \<Rightarrow> string \<times> verror list" where
  "chain_text p m n raw =
     (let v = trim (toString raw)
      in (escape v, if isLength_min n v then [] else [verr p m v]))"

text \<open>\<open>body(p).trim().isLength({ min: 1 }).escape().withMessage(m1).isAlphanumeric()
  .withMessage(m2)\<close>: \<open>withMessage\<close> names the message of the validator before it.\<close>

definition chain_name :: "string \<Rightarrow> string \<Rightarrow> string \<Rightarrow> string option \<Rightarrow> string \<times> verror list" where
  "chain_name p m1 m2 raw =
     (let v = trim (toString raw); w = escape v
      in (w, (if isLength_min 1 v then [] else [verr p m1 v])
             @ (if isAlphanumeric w then [] else [verr p m2 w])))"

text \<open>\<open>body(p).escape()\<close>: no validator, so no error.\<close>

definition chain_escape :: "string option \<Rightarrow> string" where
  "chain_escape raw = escape (toString raw)"

text \<open>\<open>body(p, m).optional({ values: "falsy" }).isISO8601().toDate()\<close>: an absent or
  empty field is left as it is and not checked.\<close>

datatype datefield = DUndefined | DEmpty | DDate nat | DNull

definition chain_date :: "env \<Rightarrow> string \<Rightarrow> string \<Rightarrow> string option \<Rightarrow> datefield \<times> verror list" where
  "chain_date e p m raw =
     (case raw of
        None \<Rightarrow> (DUndefined, [])
      | Some v \<Rightarrow>
          if v = [] then (DEmpty, [])
          else ((case toDate e v of Some d \<Rightarrow> DDate d | None \<Rightarrow> DNull),
                if isISO8601 e v then [] else [verr p m v]))"

text \<open>A date path of a document: \<open>undefined\<close>, the empty string and \<open>null\<close> all store
  no date.\<close>

definition cast_date :: "datefield \<Rightarrow> nat option" where
  "cast_date d = (case d of DDate t \<Rightarrow> Some t | _ \<Rightarrow> None)"

section \<open>Genre controller\<close>

text \<open>The Genre schema: \<open>name\<close> is required, with \<open>minLength: 3\<close> and
  \<open>maxLength: 100\<close>; \<open>save\<close> validates against it.\<close>

definition genre_schema_ok :: "genre \<Rightarrow> bool" where
  "genre_schema_ok g = (g_name g \<noteq> [] \<and> 3 \<le> length (g_name g) \<and> length (g_name g) \<le> 100)"

definition genre_validate :: "string option \<Rightarrow> string \<times> verror list" where
  "genre_validate raw =
     chain_text ''name'' ''Genre name must contain at least 3 characters'' 3 raw"

text \<open>\<open>findOne({ name }).collation({ locale: "en", strength: 2 })\<close>: the first genre
  whose name the store finds equal to the given one under that collation.\<close>

definition findOne_genre_ci :: "env \<Rightarrow> string \<Rightarrow> genre list \<Rightarrow> genre option" where
  "findOne_genre_ci e n gs = List.find (\<lambda>g. collation_equal e (g_name g) n) gs"

definition genre_detail :: "store \<Rightarrow> string \<Rightarrow> outcome" where
  "genre_detail s i =
     (case findById g_id i (genres s) of
        None \<Rightarrow> (s, [Next (HttpError 404 ''Genre not found'')])
      | Some g \<Rightarrow>
          (s, [RenderFile ''views/genre-detail.ejs''
                 [(''title'', VStr ''Genre Detail''), (''genre'', VGenre g),
                  (''genre_books'', VBookSummaries (books_in_genre i s))]]))"

text \<open>After a save the handler redirects to \<open>catalog/genres\<close>, written without the
  leading slash that the other list redirects have.\<close>

definition genre_create_post :: "env \<Rightarrow> store \<Rightarrow> string option \<Rightarrow> outcome" where
  "genre_create_post e s raw =
     (let (name, errors) = genre_validate raw;
          genre = \<lparr> g_id = newid e, g_name = name \<rparr>
      in if errors \<noteq> [] then
           (s, [RenderFile ''views/genre-form.ejs''
                  [(''title'', VStr ''Create Genre''), (''genre'', VGenre genre),
                   (''errors'', VErrors errors)]])
         else
           (case findOne_genre_ci e name (genres s) of
              Some genreExists \<Rightarrow> (s, [Redirect (genre_url genreExists)])
            | None \<Rightarrow>
                if genre_schema_ok genre then
                  (s\<lparr>genres := genres s @ [genre]\<rparr>, [Redirect ''catalog/genres''])
                else (s, [Next (Thrown ''ValidationError'')])))"

text \<open>The handler answers an absent genre with a redirect and goes on to the template
  all the same: there is no \<open>return\<close> after the redirect.\<close>

definition genre_delete_view :: "store \<Rightarrow> string \<Rightarrow> effect" where
  "genre_delete_view s i =
     RenderFile ''views/genre-delete.ejs''
       [(''title'', VStr ''Delete Genre''),
        (''genre'', (case findById g_id i (genres s) of None \<Rightarrow> VNull | Some g \<Rightarrow> VGenre g)),
        (''genre_books'', VBookSummaries (books_in_genre i s))]"

definition genre_delete_get :: "store \<Rightarrow> string \<Rightarrow> outcome" where
  "genre_delete_get s i =
     (s, (if findById g_id i (genres s) = None then [Redirect ''/catalog/genres''] else [])
         @ [genre_delete_view s i])"

text \<open>The dependents are looked up under the identifier of the path, the document is
  removed under the identifier of the body (\<open>req.body.id\<close>).\<close>

definition genre_delete_post :: "store \<Rightarrow> string \<Rightarrow> string \<Rightarrow> outcome" where
  "genre_delete_post s i body_id =
     (if length (books_in_genre i s) > 0 then (s, [genre_delete_view s i])
      else (s\<lparr>genres := findByIdAndRemove g_id body_id (genres s)\<rparr>,
            [Redirect ''/catalog/genres'']))"

definition genre_update_get :: "store \<Rightarrow> string \<Rightarrow> outcome" where
  "genre_update_get s i =
     (case findById g_id i (genres s) of
        None \<Rightarrow> (s, [Next (HttpError 404 ''Genre not found'')])
      | Some g \<Rightarrow>
          (s, [RenderFile ''views/genre-form.ejs''
                 [(''title'', VStr ''Update Genre''), (''genre'', VGenre g)]]))"

definition genre_update_post :: "store \<Rightarrow> string \<Rightarrow> string option \<Rightarrow> outcome" where
  "genre_update_post s i raw =
     (let (name, errors) = genre_validate raw;
          genre = \<lparr> g_id = i, g_name = name \<rparr>
      in if errors \<noteq> [] then
           (s, [RenderFile ''views/genre-form.ejs''
                  [(''title'', VStr ''Update Genre''), (''genre'', VGenre genre),
                   (''errors'', VErrors errors)]])
         else
           (s\<lparr>genres := findByIdAndUpdate g_id i genre (genres s)\<rparr>,
            [Redirect (genre_url genre)]))"

section \<open>Author controller\<close>

text \<open>Modelled from the spec: the Author schema (\<open>models/author\<close>) is not among the
  sources; the spec gives \<open>first_name\<close> and \<open>family_name\<close> as non-empty.\<close>

definition author_schema_ok :: "author \<Rightarrow> bool" where
  "author_schema_ok a = (a_first_name a \<noteq> [] \<and> a_family_name a \<noteq> [])"

record author_body =
  first_name :: "string option"
  family_name :: "string option"
  date_of_birth :: "string option"
  date_of_death :: "string option"

record author_fields =
  af_first_name :: string
  af_family_name :: string
  af_date_of_birth :: datefield
  af_date_of_death :: datefield

definition author_validate :: "env \<Rightarrow> author_body \<Rightarrow> author_fields \<times> verror list" where
  "author_validate e b =
     (let (fn, e1) = chain_name ''first_name'' ''First name must be specified.''
                       ''First name has non-alphanumeric characters.'' (first_name b);
          (ln, e2) = chain_name ''family_name'' ''Family name must be specified.''
                       ''Family name has non-alphanumeric characters.'' (family_name b);
          (dob, e3) = chain_date e ''date_of_birth'' ''Invalid date of birth'' (date_of_birth b);
          (dod, e4) = chain_date e ''date_of_death'' ''Invalid date of death'' (date_of_death b)
      in (\<lparr> af_first_name = fn, af_family_name = ln,
            af_date_of_birth = dob, af_date_of_death = dod \<rparr>, e1 @ e2 @ e3 @ e4))"

definition new_Author :: "string \<Rightarrow> author_fields \<Rightarrow> author" where
  "new_Author i f =
     \<lparr> a_id = i, a_first_name = af_first_name f, a_family_name = af_family_name f,
       a_date_of_birth = cast_date (af_date_of_birth f),
       a_date_of_death = cast_date (af_date_of_death f) \<rparr>"

definition author_detail :: "store \<Rightarrow> string \<Rightarrow> outcome" where
  "author_detail s i =
     (case findById a_id i (authors s) of
        None \<Rightarrow> (s, [Next (HttpError 404 ''Author not found'')])
      | Some a \<Rightarrow>
          (s, [RenderFile ''views/author-detail.ejs''
                 [(''title'', VStr ''Author Detail''), (''author'', VAuthor a),
                  (''author_books'', VBookSummaries (books_by_author i s))]]))"

definition author_create_post :: "env \<Rightarrow> store \<Rightarrow> author_body \<Rightarrow> outcome" where
  "author_create_post e s b =
     (let (f, errors) = author_validate e b;
          author = new_Author (newid e) f
      in if errors \<noteq> [] then
           (s, [RenderFile ''views/author-form.ejs''
                  [(''title'', VStr ''Create Author''), (''author'', VAuthor author),
                   (''errors'', VErrors errors)]])
         else if author_schema_ok author then
           (s\<lparr>authors := authors s @ [author]\<rparr>, [Redirect ''/catalog/authors''])
         else (s, [Next (Thrown ''ValidationError'')]))"

definition author_delete_view :: "store \<Rightarrow> string \<Rightarrow> effect" where
  "author_delete_view s i =
     RenderFile ''views/author-delete.ejs''
       [(''title'', VStr ''Delete Author''),
        (''author'', (case findById a_id i (authors s) of None \<Rightarrow> VNull | Some a \<Rightarrow> VAuthor a)),
        (''author_books'', VBookSummaries (books_by_author i s))]"

definition author_delete_get :: "store \<Rightarrow> string \<Rightarrow> outcome" where
  "author_delete_get s i =
     (s, (if findById a_id i (authors s) = None then [Redirect ''/catalog/authors''] else [])
         @ [author_delete_view s i])"

text \<open>The document is removed under \<open>req.body.authorid\<close>.\<close>

definition author_delete_post :: "store \<Rightarrow> string \<Rightarrow> string \<Rightarrow> outcome" where
  "author_delete_post s i body_authorid =
     (if length (books_by_author i s) > 0 then (s, [author_delete_view s i])
      else (s\<lparr>authors := findByIdAndRemove a_id body_authorid (authors s)\<rparr>,
            [Redirect ''/catalog/authors'']))"

definition author_update_get :: "store \<Rightarrow> string \<Rightarrow> outcome" where
  "author_update_get s i =
     (case findById a_id i (authors s) of
        None \<Rightarrow> (s, [Next (HttpError 404 ''Author not found'')])
      | Some a \<Rightarrow>
          (s, [RenderFile ''views/author-form.ejs''
                 [(''title'', VStr ''Update Author''), (''errors'', VNull)]]))"

text \<open>An update sets the paths the candidate defines: a date the submission left
  absent keeps the stored value.\<close>

definition author_merge :: "author_fields \<Rightarrow> author \<Rightarrow> author \<Rightarrow> author" where
  "author_merge f c old =
     c\<lparr> a_date_of_birth :=
          (if af_date_of_birth f = DUndefined then a_date_of_birth old else a_date_of_birth c),
        a_date_of_death :=
          (if af_date_of_death f = DUndefined then a_date_of_death old else a_date_of_death c) \<rparr>"

fun author_findByIdAndUpdate :: "string \<Rightarrow> author_fields \<Rightarrow> author \<Rightarrow> author list \<Rightarrow> author list" where
  "author_findByIdAndUpdate i f c [] = []"
| "author_findByIdAndUpdate i f c (d # ds) =
     (if a_id d = i then author_merge f c d # ds else d # author_findByIdAndUpdate i f c ds)"

definition author_update_post :: "env \<Rightarrow> store \<Rightarrow> string \<Rightarrow> author_body \<Rightarrow> outcome" where
  "author_update_post e s i b =
     (let (f, errors) = author_validate e b;
          author = new_Author i f
      in if errors \<noteq> [] then
           (s, [RenderFile ''views/author-form.ejs''
                  [(''title'', VStr ''Update Author''), (''author'', VAuthor author),
                   (''errors'', VErrors errors)]])
         else
           (s\<lparr>authors := author_findByIdAndUpdate i f author (authors s)\<rparr>,
            [Redirect (author_url author)]))"

section \<open>Book controller\<close>

definition index :: "store \<Rightarrow> outcome" where
  "index s =
     (let numBooks = length (books s);
          numBookInstances = length (bookinstances s);
          numAvailableBookInstances =
            length (filter (\<lambda>bi. i_status bi = ''Available'') (bookinstances s));
          numAuthors = length (authors s);
          numGenres = length (authors s)
      in (s, [RenderFile ''views/index.ejs''
                [(''title'', VStr ''Local Library Home''),
                 (''book_count'', VNum numBooks),
                 (''book_instance_count'', VNum numBookInstances),
                 (''book_instance_available_count'', VNum numAvailableBookInstances),
                 (''author_count'', VNum numAuthors),
                 (''genre_count'', VNum numGenres)]]))"

text \<open>Modelled from the spec: the Book schema (\<open>models/book\<close>) is not among the
  sources; the spec gives title, summary and isbn as non-empty and the author as a
  reference to exactly one Author.\<close>

definition book_schema_ok :: "book \<Rightarrow> bool" where
  "book_schema_ok b =
     (b_title b \<noteq> [] \<and> b_author b \<noteq> [] \<and> b_summary b \<noteq> [] \<and> b_isbn b \<noteq> [])"

text \<open>The genre field of a submission: absent, one value, or several.\<close>

datatype genre_input = GAbsent | GScalar string | GArray "string list"

record book_body =
  title :: "string option"
  author :: "string option"
  summary :: "string option"
  isbn :: "string option"
  genre :: genre_input

text \<open>The first middleware of both Book submissions: "Convert the genre to an array".\<close>

definition convert_genre :: "genre_input \<Rightarrow> string list" where
  "convert_genre g = (case g of GArray xs \<Rightarrow> xs | GAbsent \<Rightarrow> [] | GScalar x \<Rightarrow> [x])"

definition book_validate :: "book_body \<Rightarrow> (string \<times> string \<times> string \<times> string \<times> string list) \<times> verror list" where
  "book_validate b =
     (let g0 = convert_genre (genre b);
          (t, e1) = chain_text ''title'' ''Title must not be empty.'' 1 (title b);
          (a, e2) = chain_text ''author'' ''Author must not be empty.'' 1 (author b);
          (su, e3) = chain_text ''summary'' ''Summary must not be empty.'' 1 (summary b);
          (isb, e4) = chain_text ''isbn'' ''ISBN must not be empty'' 1 (isbn b);
          g = map escape g0
      in ((t, a, su, isb, g), e1 @ e2 @ e3 @ e4))"

definition new_Book :: "string \<Rightarrow> string \<times> string \<times> string \<times> string \<times> string list \<Rightarrow> book" where
  "new_Book i f =
     (case f of (t, a, su, isb, g) \<Rightarrow>
        \<lparr> b_id = i, b_title = t, b_author = a, b_summary = su, b_isbn = isb, b_genre = g \<rparr>)"

definition mark_checked :: "book \<Rightarrow> genre list \<Rightarrow> (genre \<times> bool) list" where
  "mark_checked b gs = map (\<lambda>g. (g, g_id g \<in> set (b_genre b))) gs"

definition book_detail :: "store \<Rightarrow> string \<Rightarrow> outcome" where
  "book_detail s i =
     (case findById b_id i (books s) of
        None \<Rightarrow> (s, [Next (HttpError 404 ''Book not found'')])
      | Some b \<Rightarrow>
          (s, [RenderFile ''views/book-detail.ejs''
                 [(''title'', VStr (b_title b)), (''book'', VPopBook (populate_book s b)),
                  (''book_instances'', VInstances (instances_of_book i s))]]))"

definition book_create_post :: "env \<Rightarrow> store \<Rightarrow> book_body \<Rightarrow> outcome" where
  "book_create_post e s b =
     (let (f, errors) = book_validate b;
          book = new_Book (newid e) f
      in if errors \<noteq> [] then
           (s, [RenderFile ''views/book-form.ejs''
                  [(''ttitle'', VStr ''Create Book''), (''authors'', VAuthors (authors s)),
                   (''genres'', VGenres (mark_checked book (genres s))),
                   (''book'', VBook book), (''errors'', VErrors errors)]])
         else if book_schema_ok book then
           (s\<lparr>books := books s @ [book]\<rparr>, [Redirect (book_url book)])
         else (s, [Next (Thrown ''ValidationError'')]))"

definition book_delete_view :: "store \<Rightarrow> string \<Rightarrow> effect" where
  "book_delete_view s i =
     RenderFile ''views/book-delete.ejs''
       [(''title'', VStr ''Remove Book''),
        (''book'', (case findById b_id i (books s) of
                      None \<Rightarrow> VNull | Some b \<Rightarrow> VPopBook (populate_book s b))),
        (''book_instances'', VInstances (instances_of_book i s)),
        (''errors'', VNull)]"

definition book_delete_get :: "store \<Rightarrow> string \<Rightarrow> outcome" where
  "book_delete_get s i =
     (s, (if findById b_id i (books s) = None then [Redirect ''/catalog/books''] else [])
         @ [book_delete_view s i])"

text \<open>As in the GET handler, an absent book is answered with a redirect and the handler
  goes on. The document is removed under \<open>req.body.id\<close>.\<close>

definition book_delete_post :: "store \<Rightarrow> string \<Rightarrow> string \<Rightarrow> outcome" where
  "book_delete_post s i body_id =
     (let first = (if findById b_id i (books s) = None then [Redirect ''/catalog/books''] else [])
      in if length (instances_of_book i s) > 0 then (s, first @ [book_delete_view s i])
         else (s\<lparr>books := findByIdAndRemove b_id body_id (books s)\<rparr>,
               first @ [Redirect ''/catalog/books'']))"

definition book_update_get :: "store \<Rightarrow> string \<Rightarrow> outcome" where
  "book_update_get s i =
     (case findById b_id i (books s) of
        None \<Rightarrow> (s, [Next (HttpError 404 ''Book not found'')])
      | Some b \<Rightarrow>
          (s, [RenderFile ''views/book-form.ejs''
                 [(''title'', VStr ''Update Book''), (''authors'', VAuthors (authors s)),
                  (''genres'', VGenres (map (\<lambda>g. (g, g_id g \<in> set (map g_id (pb_genre (populate_book s b)))))
                                          (genres s))),
                  (''book'', VPopBook (populate_book s b)), (''errors'', VNull)]]))"

text \<open>The redirect goes to the document \<open>findByIdAndUpdate\<close> returns, the one found
  under the identifier; with no such document the call returns \<open>null\<close> and reading
  its \<open>url\<close> throws.\<close>

definition book_update_post :: "store \<Rightarrow> string \<Rightarrow> book_body \<Rightarrow> outcome" where
  "book_update_post s i b =
     (let (f, errors) = book_validate b;
          book = new_Book i f
      in if errors \<noteq> [] then
           (s, [RenderFile ''views/book-form.ejs''
                  [(''title'', VStr ''Update Book''), (''authors'', VAuthors (authors s)),
                   (''genres'', VGenres (mark_checked book (genres s))),
                   (''book'', VBook book), (''errors'', VErrors errors)]])
         else
           (case findById b_id i (books s) of
              None \<Rightarrow> (s\<lparr>books := findByIdAndUpdate b_id i book (books s)\<rparr>,
                       [Next (Thrown ''TypeError'')])
            | Some thebook \<Rightarrow>
                (s\<lparr>books := findByIdAndUpdate b_id i book (books s)\<rparr>,
                 [Redirect (book_url thebook)])))"

section \<open>BookInstance controller\<close>

text \<open>The BookInstance schema: \<open>book\<close> is a required \<open>ObjectId\<close>, \<open>imprint\<close> and
  \<open>status\<close> are required strings, \<open>status\<close> is one of four values; \<open>save\<close> validates
  against it. The default of \<open>status\<close> applies to \<open>undefined\<close> only, and the sanitizer
  of the field has written a string by then; the default of \<open>due_back\<close> is the clock.\<close>

definition status_enum :: "string list" where
  "status_enum = [''Available'', ''Maintenance'', ''Loaned'', ''Reserved'']"

definition bookinstance_schema_ok :: "bookinstance \<Rightarrow> bool" where
  "bookinstance_schema_ok bi =
     (i_book bi \<noteq> None \<and> i_imprint bi \<noteq> [] \<and> i_status bi \<noteq> [] \<and> i_status bi \<in> set status_enum)"

record bookinstance_body =
  book :: "string option"
  imprint :: "string option"
  status :: "string option"
  due_back :: "string option"

definition bookinstance_validate ::
  "env \<Rightarrow> bookinstance_body \<Rightarrow> (string \<times> string \<times> string \<times> datefield) \<times> verror list" where
  "bookinstance_validate e b =
     (let (bk, e1) = chain_text ''book'' ''Book must be specified'' 1 (book b);
          (im, e2) = chain_text ''imprint'' ''Imprint must be specified'' 1 (imprint b);
          st = chain_escape (status b);
          (du, e4) = chain_date e ''due_back'' ''Invalid date'' (due_back b)
      in ((bk, im, st, du), e1 @ e2 @ e4))"

definition new_BookInstance :: "env \<Rightarrow> string \<Rightarrow> string \<times> string \<times> string \<times> datefield \<Rightarrow> bookinstance" where
  "new_BookInstance e i f =
     (case f of (bk, im, st, du) \<Rightarrow>
        \<lparr> i_id = i, i_book = castObjectId e bk, i_imprint = im, i_status = st,
          i_due_back = (if du = DUndefined then Some (now e) else cast_date du) \<rparr>)"

definition bookinstance_detail :: "store \<Rightarrow> string \<Rightarrow> outcome" where
  "bookinstance_detail s i =
     (case findById i_id i (bookinstances s) of
        None \<Rightarrow> (s, [Next (HttpError 404 ''Book copy not found'')])
      | Some bi \<Rightarrow>
          (s, [RenderFile ''views/bookinstance-detail.ejs''
                 [(''bookinstance'', VPopInstance (populate_instance s bi))]]))"

text \<open>The form of the error branch is given \<open>selected_book: bookInstance.book._id\<close>.
  When the book path of the candidate is \<open>undefined\<close> the read throws, and the handler
  ends there with the error forwarded to \<open>next\<close>; no template is rendered.\<close>

definition bookinstance_form :: "string \<Rightarrow> store \<Rightarrow> bookinstance \<Rightarrow> verror list \<Rightarrow> effect" where
  "bookinstance_form t s bi errors =
     (case i_book bi of
        None \<Rightarrow> Next (Thrown ''TypeError'')
      | Some b \<Rightarrow>
          RenderFile ''views/bookinstance-form.ejs''
            [(''title'', VStr t), (''book_list'', VBookTitles (map (\<lambda>b. (b_id b, b_title b)) (books s))),
             (''selected_book'', VStr b), (''errors'', VErrors errors),
             (''bookinstance'', VInstance bi)])"

definition bookinstance_create_post :: "env \<Rightarrow> store \<Rightarrow> bookinstance_body \<Rightarrow> outcome" where
  "bookinstance_create_post e s b =
     (let (f, errors) = bookinstance_validate e b;
          bookInstance = new_BookInstance e (newid e) f
      in if errors \<noteq> [] then
           (s, [bookinstance_form ''Create BookInstance'' s bookInstance errors])
         else if bookinstance_schema_ok bookInstance then
           (s\<lparr>bookinstances := bookinstances s @ [bookInstance]\<rparr>,
            [Redirect (bookinstance_url bookInstance)])
         else (s, [Next (Thrown ''ValidationError'')]))"

definition bookinstance_delete_get :: "store \<Rightarrow> string \<Rightarrow> outcome" where
  "bookinstance_delete_get s i =
     (s, (if findById i_id i (bookinstances s) = None
          then [Redirect ''/catalog/bookinstances''] else [])
         @ [RenderFile ''views/bookinstance-delete.ejs''
              [(''title'', VStr ''Delete BookInstance''),
               (''bookinstance'',
                  (case findById i_id i (bookinstances s) of
                     None \<Rightarrow> VNull | Some bi \<Rightarrow> VPopInstance (populate_instance s bi)))]])"

text \<open>"Assume valid \<open>BookInstance_id\<close> in field": the handler removes the document
  named by \<open>req.body.id\<close> and looks at nothing else.\<close>

definition bookinstance_delete_post :: "store \<Rightarrow> string \<Rightarrow> string \<Rightarrow> outcome" where
  "bookinstance_delete_post s i body_id =
     (s\<lparr>bookinstances := findByIdAndRemove i_id body_id (bookinstances s)\<rparr>,
      [Redirect ''/catalog/bookinstances''])"

text \<open>The form reads \<open>bookInstance.book._id\<close> of the populated instance: when the
  referenced book is gone, \<open>book\<close> is \<open>null\<close> and the read throws.\<close>

definition bookinstance_update_get :: "store \<Rightarrow> string \<Rightarrow> outcome" where
  "bookinstance_update_get s i =
     (case findById i_id i (bookinstances s) of
        None \<Rightarrow> (s, [Next (HttpError 404 ''Book copy not found'')])
      | Some bi \<Rightarrow>
          (case pi_book (populate_instance s bi) of
             None \<Rightarrow> (s, [Next (Thrown ''TypeError'')])
           | Some b \<Rightarrow>
               (s, [RenderFile ''views/bookinstance-form.ejs''
                      [(''title'', VStr ''Update BookInstance''), (''book_list'', VBooks (books s)),
                       (''selected_book'', VStr (b_id b)),
                       (''bookinstance'', VPopInstance (populate_instance s bi))]])))"

text \<open>An update sets the paths the candidate defines: with the book path of the
  candidate \<open>undefined\<close>, the stored reference stays.\<close>

definition bookinstance_merge :: "bookinstance \<Rightarrow> bookinstance \<Rightarrow> bookinstance" where
  "bookinstance_merge c old =
     c\<lparr> i_book := (case i_book c of None \<Rightarrow> i_book old | Some b \<Rightarrow> Some b) \<rparr>"

fun bookinstance_findByIdAndUpdate ::
  "string \<Rightarrow> bookinstance \<Rightarrow> bookinstance list \<Rightarrow> bookinstance list" where
  "bookinstance_findByIdAndUpdate i c [] = []"
| "bookinstance_findByIdAndUpdate i c (d # ds) =
     (if i_id d = i then bookinstance_merge c d # ds
      else d # bookinstance_findByIdAndUpdate i c ds)"

definition bookinstance_update_post :: "env \<Rightarrow> store \<Rightarrow> string \<Rightarrow> bookinstance_body \<Rightarrow> outcome" where
  "bookinstance_update_post e s i b =
     (let (f, errors) = bookinstance_validate e b;
          bookInstance = new_BookInstance e i f
      in if errors \<noteq> [] then
           (s, [bookinstance_form ''Update BookInstance'' s bookInstance errors])
         else
           (s\<lparr>bookinstances := bookinstance_findByIdAndUpdate i bookInstance (bookinstances s)\<rparr>,
            [Redirect (bookinstance_url bookInstance)]))"

section \<open>Reading an outcome\<close>

text \<open>The value a key has in the data context of the first template rendered.\<close>

fun rendered_value :: "string \<Rightarrow> effect list \<Rightarrow> cval option" where
  "rendered_value k [] = None"
| "rendered_value k (RenderFile v c # es) = map_of c k"
| "rendered_value k (Redirect u # es) = rendered_value k es"
| "rendered_value k (Next f # es) = rendered_value k es"

section \<open>Sample data\<close>

text \<open>An environment and a small catalog on which the properties below are exercised.\<close>

text \<open>The sample collation folds the letters A to Z; on names made of unaccented
  letters, which is all the samples compare, the collation of the store does the same.
  The sample identifiers are the texts of two characters.\<close>

definition sample_fold :: "char \<Rightarrow> char" where
  "sample_fold c =
     (if 65 \<le> code_unit c \<and> code_unit c \<le> 90 then char_of (code_unit c + 32) else c)"

definition sample_collation :: "string \<Rightarrow> string \<Rightarrow> bool" where
  "sample_collation x y = (map sample_fold x = map sample_fold y)"

definition env0 :: env where
  "env0 = \<lparr> newid = ''n1'', now = 1000, isISO8601 = (\<lambda>v. v = ''2020-01-31''),
            toDate = (\<lambda>v. if v = ''2020-01-31'' then Some 1580428800 else None),
            isObjectId = (\<lambda>v. length v = 2), collation_equal = sample_collation \<rparr>"

definition store0 :: store where
  "store0 =
     \<lparr> genres = [\<lparr> g_id = ''g1'', g_name = ''Fantasy'' \<rparr>, \<lparr> g_id = ''g2'', g_name = ''Poetry'' \<rparr>],
       authors = [\<lparr> a_id = ''a1'', a_first_name = ''Jane'', a_family_name = ''Austen'',
                    a_date_of_birth = None, a_date_of_death = None \<rparr>,
                  \<lparr> a_id = ''a2'', a_first_name = ''Emily'', a_family_name = ''Bronte'',
                    a_date_of_birth = None, a_date_of_death = None \<rparr>],
       books = [\<lparr> b_id = ''b1'', b_title = ''Emma'', b_author = ''a1'', b_summary = ''A novel'',
                  b_isbn = ''123'', b_genre = [''g1''] \<rparr>,
                \<lparr> b_id = ''b2'', b_title = ''Persuasion'', b_author = ''a1'',
                  b_summary = ''Another novel'', b_isbn = ''456'', b_genre = [] \<rparr>],
       bookinstances = [\<lparr> i_id = ''i1'', i_book = Some ''b1'', i_imprint = ''Print 1'',
                          i_status = ''Available'', i_due_back = None \<rparr>] \<rparr>"

text \<open>A catalog whose only book refers to a genre and an author that are not stored:
  the store does not enforce references.\<close>

definition store1 :: store where
  "store1 =
     \<lparr> genres = [], authors = [],
       books = [\<lparr> b_id = ''b1'', b_title = ''Emma'', b_author = ''a9'', b_summary = ''A novel'',
                  b_isbn = ''123'', b_genre = [''g9''] \<rparr>],
       bookinstances = [] \<rparr>"

text \<open>A catalog holding one genre whose stored name is the escaped ampersand.\<close>

definition store2 :: store where
  "store2 =
     \<lparr> genres = [\<lparr> g_id = ''g1'', g_name = ''&amp;'' \<rparr>], authors = [], books = [],
       bookinstances = [] \<rparr>"

text \<open>Submissions that pass validation.\<close>

definition author_body0 :: author_body where
  "author_body0 = \<lparr> first_name = Some ''Anne'', family_name = Some ''Bronte'',
     date_of_birth = Some ''2020-01-31'', date_of_death = None \<rparr>"

definition book_body0 :: book_body where
  "book_body0 = \<lparr> title = Some ''Agnes Grey'', author = Some ''a2'', summary = Some ''A novel'',
     isbn = Some ''789'', genre = GAbsent \<rparr>"

definition bookinstance_body0 :: bookinstance_body where
  "bookinstance_body0 = \<lparr> book = Some ''b2'', imprint = Some ''Print 2'',
     status = Some ''Loaned'', due_back = Some ''2020-01-31'' \<rparr>"

text \<open>A BookInstance submission without the book field.\<close>

definition bookinstance_body1 :: bookinstance_body where
  "bookinstance_body1 = \<lparr> book = None, imprint = Some ''Print 2'',
     status = Some ''Loaned'', due_back = None \<rparr>"

section \<open>Properties\<close>

subsection \<open>The home page\<close>

text \<open>
  C10. On the catalog home page the genre count is obtained by counting Author
  documents: for every store, the \<open>genre_count\<close> handed to the index template is the
  number of Authors in the store, whatever the number of Genres is.
\<close>

theorem index_genre_count_is_author_count:
  "rendered_value ''genre_count'' (snd (index s)) = Some (VNum (length (authors s)))"
  by (simp add: index_def)

subsection \<open>Facts about the store and the sanitizers\<close>

lemma escape_char_nonempty: "escape_char c \<noteq> []"
  by simp

lemma escape_empty_iff: "escape v = [] \<longleftrightarrow> v = []"
  by (cases v) (simp_all add: escape_def)

lemma chain_text_accepts: 
  "snd (chain_text p m n raw) = [] \<Longrightarrow> 0 < n \<Longrightarrow> fst (chain_text p m n raw) \<noteq> []"
  by (auto simp add: chain_text_def Let_def isLength_min_def escape_empty_iff split: if_splits)

lemma chain_name_accepts:
  "snd (chain_name p m1 m2 raw) = [] \<Longrightarrow> fst (chain_name p m1 m2 raw) \<noteq> []"
  by (auto simp add: chain_name_def Let_def isLength_min_def escape_empty_iff split: if_splits)

lemma findByIdAndUpdate_length: "length (findByIdAndUpdate key i c ds) = length ds"
  by (induction ds) simp_all

lemma findByIdAndUpdate_keys:
  "key c = i \<Longrightarrow> map key (findByIdAndUpdate key i c ds) = map key ds"
  by (induction ds) simp_all

lemma findByIdAndUpdate_absent:
  "findById key i ds = None \<Longrightarrow> findByIdAndUpdate key i c ds = ds"
  by (induction ds) (simp_all split: if_splits)

lemma findByIdAndUpdate_found:
  "findById key i ds \<noteq> None \<Longrightarrow> key c = i \<Longrightarrow> findById key i (findByIdAndUpdate key i c ds) = Some c"
  by (induction ds) (simp_all split: if_splits)

lemma findByIdAndRemove_split:
  "findById key i ds = Some d \<Longrightarrow>
   \<exists>xs ys. ds = xs @ d # ys \<and> findByIdAndRemove key i ds = xs @ ys \<and> i \<notin> key ` set xs"
proof (induction ds)
  case Nil
  then show ?case by simp
next
  case (Cons x ds)
  show ?case
  proof (cases "key x = i")
    case True
    with Cons.prems have "x = d" by simp
    with True show ?thesis by (intro exI [of _ "[]"] exI [of _ ds]) simp
  next
    case False
    with Cons.prems have "findById key i ds = Some d" by simp
    from Cons.IH [OF this] obtain xs ys where
      "ds = xs @ d # ys" "findByIdAndRemove key i ds = xs @ ys" "i \<notin> key ` set xs" by blast
    with False show ?thesis
      by (intro exI [of _ "x # xs"] exI [of _ ys]) auto
  qed
qed

lemma findByIdAndRemove_absent:
  "findById key i ds = None \<Longrightarrow> findByIdAndRemove key i ds = ds"
  by (induction ds) (simp_all split: if_splits)


lemmas eval_defs = genre_validate_def chain_text_def chain_name_def chain_date_def
  chain_escape_def Let_def isLength_min_def trim_def toString_def is_space_def escape_def
  isAlphanumeric_def is_alnum_def code_unit_def verr_def case_prod_beta

subsection \<open>Submissions that fail validation\<close>

text \<open>For a Genre, an Author and a Book, a create-submit or update-submit whose
  validation yields an error returns the store unchanged and only renders the form
  again, with the list of errors and the candidate built from the sanitized values. For
  a BookInstance the store is unchanged too, and the form is rendered when the sanitized
  book text casts to an identifier.\<close>

lemma invalid_submission_form:
  "(snd (genre_validate raw) \<noteq> [] \<longrightarrow>
      genre_create_post e s raw =
        (s, [RenderFile ''views/genre-form.ejs''
               [(''title'', VStr ''Create Genre''),
                (''genre'', VGenre \<lparr> g_id = newid e, g_name = fst (genre_validate raw) \<rparr>),
                (''errors'', VErrors (snd (genre_validate raw)))]])
    \<and> genre_update_post s i raw =
        (s, [RenderFile ''views/genre-form.ejs''
               [(''title'', VStr ''Update Genre''),
                (''genre'', VGenre \<lparr> g_id = i, g_name = fst (genre_validate raw) \<rparr>),
                (''errors'', VErrors (snd (genre_validate raw)))]]))
   \<and> (snd (author_validate e ab) \<noteq> [] \<longrightarrow>
      author_create_post e s ab =
        (s, [RenderFile ''views/author-form.ejs''
               [(''title'', VStr ''Create Author''),
                (''author'', VAuthor (new_Author (newid e) (fst (author_validate e ab)))),
                (''errors'', VErrors (snd (author_validate e ab)))]])
    \<and> author_update_post e s i ab =
        (s, [RenderFile ''views/author-form.ejs''
               [(''title'', VStr ''Update Author''),
                (''author'', VAuthor (new_Author i (fst (author_validate e ab)))),
                (''errors'', VErrors (snd (author_validate e ab)))]]))
   \<and> (snd (book_validate bb) \<noteq> [] \<longrightarrow>
      book_create_post e s bb =
        (s, [RenderFile ''views/book-form.ejs''
               [(''ttitle'', VStr ''Create Book''), (''authors'', VAuthors (authors s)),
                (''genres'', VGenres (mark_checked (new_Book (newid e) (fst (book_validate bb))) (genres s))),
                (''book'', VBook (new_Book (newid e) (fst (book_validate bb)))),
                (''errors'', VErrors (snd (book_validate bb)))]])
    \<and> book_update_post s i bb =
        (s, [RenderFile ''views/book-form.ejs''
               [(''title'', VStr ''Update Book''), (''authors'', VAuthors (authors s)),
                (''genres'', VGenres (mark_checked (new_Book i (fst (book_validate bb))) (genres s))),
                (''book'', VBook (new_Book i (fst (book_validate bb)))),
                (''errors'', VErrors (snd (book_validate bb)))]]))
   \<and> (snd (bookinstance_validate e ib) \<noteq> [] \<longrightarrow>
      fst (bookinstance_create_post e s ib) = s
      \<and> fst (bookinstance_update_post e s i ib) = s
      \<and> (castObjectId e (escape (trim (toString (book ib)))) = Some b \<longrightarrow>
          bookinstance_create_post e s ib =
            (s, [RenderFile ''views/bookinstance-form.ejs''
                   [(''title'', VStr ''Create BookInstance''),
                    (''book_list'', VBookTitles (map (\<lambda>b. (b_id b, b_title b)) (books s))),
                    (''selected_book'', VStr b),
                    (''errors'', VErrors (snd (bookinstance_validate e ib))),
                    (''bookinstance'',
                       VInstance (new_BookInstance e (newid e) (fst (bookinstance_validate e ib))))]])
          \<and> bookinstance_update_post e s i ib =
            (s, [RenderFile ''views/bookinstance-form.ejs''
                   [(''title'', VStr ''Update BookInstance''),
                    (''book_list'', VBookTitles (map (\<lambda>b. (b_id b, b_title b)) (books s))),
                    (''selected_book'', VStr b),
                    (''errors'', VErrors (snd (bookinstance_validate e ib))),
                    (''bookinstance'',
                       VInstance (new_BookInstance e i (fst (bookinstance_validate e ib))))]])))"
proof -
  have bk: "i_book (new_BookInstance e j (fst (bookinstance_validate e ib)))
      = castObjectId e (escape (trim (toString (book ib))))" for j
    by (simp add: new_BookInstance_def bookinstance_validate_def chain_text_def
        case_prod_beta Let_def)
  show ?thesis
  proof (intro conjI impI)
    assume "snd (bookinstance_validate e ib) \<noteq> []"
      and "castObjectId e (escape (trim (toString (book ib)))) = Some b"
    then show "bookinstance_create_post e s ib =
            (s, [RenderFile ''views/bookinstance-form.ejs''
                   [(''title'', VStr ''Create BookInstance''),
                    (''book_list'', VBookTitles (map (\<lambda>b. (b_id b, b_title b)) (books s))),
                    (''selected_book'', VStr b),
                    (''errors'', VErrors (snd (bookinstance_validate e ib))),
                    (''bookinstance'',
                       VInstance (new_BookInstance e (newid e) (fst (bookinstance_validate e ib))))]])"
      by (simp add: bookinstance_create_post_def bookinstance_form_def bk case_prod_beta Let_def)
  next
    assume "snd (bookinstance_validate e ib) \<noteq> []"
      and "castObjectId e (escape (trim (toString (book ib)))) = Some b"
    then show "bookinstance_update_post e s i ib =
            (s, [RenderFile ''views/bookinstance-form.ejs''
                   [(''title'', VStr ''Update BookInstance''),
                    (''book_list'', VBookTitles (map (\<lambda>b. (b_id b, b_title b)) (books s))),
                    (''selected_book'', VStr b),
                    (''errors'', VErrors (snd (bookinstance_validate e ib))),
                    (''bookinstance'',
                       VInstance (new_BookInstance e i (fst (bookinstance_validate e ib))))]])"
      by (simp add: bookinstance_update_post_def bookinstance_form_def bk case_prod_beta Let_def)
  qed (simp_all add: genre_create_post_def genre_update_post_def author_create_post_def
        author_update_post_def book_create_post_def book_update_post_def
        bookinstance_create_post_def bookinstance_update_post_def
        case_prod_beta Let_def)
qed

text \<open>
  C1. For every create-submit and update-submit of any entity kind, a submission with a
  field error writes nothing, is not surfaced as an HTTP-level error, and has the form
  rendered again with the errors and the candidate. The BookInstance handlers break
  this: a submission without the book field fails validation (\<open>Book must be
  specified\<close>), the candidate then has no book, and the error branch, on its way to
  the form, reads \<open>bookInstance.book._id\<close>. In every environment and store, both
  handlers end with the thrown error passed to \<open>next\<close> and render no form.
\<close>

theorem bookinstance_invalid_submission_throws:
  "snd (bookinstance_validate e bookinstance_body1)
     = [\<lparr> err_path = ''book'', err_msg = ''Book must be specified'', err_value = [] \<rparr>]
   \<and> bookinstance_create_post e s bookinstance_body1 = (s, [Next (Thrown ''TypeError'')])
   \<and> bookinstance_update_post e s i bookinstance_body1 = (s, [Next (Thrown ''TypeError'')])"
  by (simp add: bookinstance_create_post_def bookinstance_update_post_def
      bookinstance_validate_def bookinstance_form_def new_BookInstance_def castObjectId_def
      bookinstance_body1_def eval_defs)

subsection \<open>Deleting\<close>

text \<open>
  C2 (as the code has it). Book delete-submit is guarded by a dependent check. When at
  least one BookInstance references the identifier of the path, no document is removed
  and the handler ends by rendering the confirmation view with the current instances.
  Only when no BookInstance references it does the handler remove a Book, the one named
  by the identifier of the body, and end with a redirect to the book list.
\<close>

theorem book_delete_post_guarded:
  "(instances_of_book i s \<noteq> [] \<longrightarrow>
      fst (book_delete_post s i body_id) = s
      \<and> last (snd (book_delete_post s i body_id)) = book_delete_view s i
      \<and> rendered_value ''book_instances'' (snd (book_delete_post s i body_id))
          = Some (VInstances (instances_of_book i s)))
   \<and> (instances_of_book i s = [] \<longrightarrow>
      fst (book_delete_post s i body_id) = s\<lparr>books := findByIdAndRemove b_id body_id (books s)\<rparr>
      \<and> last (snd (book_delete_post s i body_id)) = Redirect ''/catalog/books'')"
  by (simp add: book_delete_post_def Let_def book_delete_view_def)

theorem book_delete_post_guarded_witness:
  "instances_of_book ''b1'' store0 \<noteq> []
   \<and> fst (book_delete_post store0 ''b1'' ''b1'') = store0
   \<and> instances_of_book ''b2'' store0 = []
   \<and> last (snd (book_delete_post store0 ''b2'' ''b1'')) = Redirect ''/catalog/books''"
proof -
  have a: "instances_of_book ''b1'' store0 \<noteq> []"
    by (simp add: instances_of_book_def store0_def)
  have b: "instances_of_book ''b2'' store0 = []"
    by (simp add: instances_of_book_def store0_def)
  show ?thesis
    using a b book_delete_post_guarded [of "''b1''" store0 "''b1''"]
      book_delete_post_guarded [of "''b2''" store0 "''b1''"]
    by simp
qed

text \<open>The claim as stated, that the deletion always removes the Book, fails on the
  sample catalog: \<open>b1\<close> has a copy, and after the delete-submit it is still stored.\<close>

theorem book_delete_with_instance_counterexample:
  "findById b_id ''b1'' (books store0) \<noteq> None
   \<and> book_delete_post store0 ''b1'' ''b1'' = (store0, [book_delete_view store0 ''b1''])
   \<and> findById b_id ''b1'' (books (fst (book_delete_post store0 ''b1'' ''b1''))) \<noteq> None"
  by (simp add: book_delete_post_def instances_of_book_def store0_def Let_def)

text \<open>
  C4 (as the code has it). A delete-submit whose path identifier names an entity that
  still has a dependent removes nothing, whatever identifier the body names. For a Genre
  or an Author that some Book references, and for a stored Book that some BookInstance
  references, the store is returned unchanged, the only effect is the confirmation view
  rendered with the current list of dependents, and the number of documents of the kind
  is what it was. (No kind references a BookInstance, so a BookInstance never has a
  dependent.)
\<close>

theorem delete_blocked_by_dependents:
  "(books_in_genre i s \<noteq> [] \<longrightarrow>
      genre_delete_post s i body_id = (s, [genre_delete_view s i])
      \<and> rendered_value ''genre_books'' (snd (genre_delete_post s i body_id))
          = Some (VBookSummaries (books_in_genre i s))
      \<and> length (genres (fst (genre_delete_post s i body_id))) = length (genres s))
   \<and> (books_by_author i s \<noteq> [] \<longrightarrow>
      author_delete_post s i body_id = (s, [author_delete_view s i])
      \<and> rendered_value ''author_books'' (snd (author_delete_post s i body_id))
          = Some (VBookSummaries (books_by_author i s))
      \<and> length (authors (fst (author_delete_post s i body_id))) = length (authors s))
   \<and> (findById b_id i (books s) \<noteq> None \<and> instances_of_book i s \<noteq> [] \<longrightarrow>
      book_delete_post s i body_id = (s, [book_delete_view s i])
      \<and> rendered_value ''book_instances'' (snd (book_delete_post s i body_id))
          = Some (VInstances (instances_of_book i s))
      \<and> length (books (fst (book_delete_post s i body_id))) = length (books s))"
  by (simp add: genre_delete_post_def author_delete_post_def book_delete_post_def Let_def
      genre_delete_view_def author_delete_view_def book_delete_view_def)

theorem delete_blocked_by_dependents_witness:
  "books_in_genre ''g1'' store0 \<noteq> []
   \<and> fst (genre_delete_post store0 ''g1'' ''g1'') = store0
   \<and> books_by_author ''a1'' store0 \<noteq> []
   \<and> fst (author_delete_post store0 ''a1'' ''a1'') = store0
   \<and> findById b_id ''b1'' (books store0) \<noteq> None \<and> instances_of_book ''b1'' store0 \<noteq> []
   \<and> fst (book_delete_post store0 ''b1'' ''b1'') = store0"
proof -
  have g: "books_in_genre ''g1'' store0 \<noteq> []"
    by (simp add: books_in_genre_def store0_def)
  have a: "books_by_author ''a1'' store0 \<noteq> []"
    by (simp add: books_by_author_def store0_def)
  have b: "findById b_id ''b1'' (books store0) \<noteq> None \<and> instances_of_book ''b1'' store0 \<noteq> []"
    by (simp add: instances_of_book_def store0_def)
  show ?thesis
    using g a b delete_blocked_by_dependents [of "''g1''" store0 "''g1''"]
      delete_blocked_by_dependents [of "''a1''" store0 "''a1''"]
      delete_blocked_by_dependents [of "''b1''" store0 "''b1''"]
    by simp
qed

text \<open>The dependents are looked up under the path, the removal goes by the body:
  with path \<open>a2\<close>, an author of no book, and body \<open>a1\<close>, the author \<open>a1\<close> is removed
  although two books name it, and the number of authors drops.\<close>

theorem author_delete_by_body_counterexample:
  "books_by_author ''a1'' store0
     = [(''b1'', ''Emma'', ''A novel''), (''b2'', ''Persuasion'', ''Another novel'')]
   \<and> books_by_author ''a2'' store0 = []
   \<and> authors (fst (author_delete_post store0 ''a2'' ''a1''))
       = [\<lparr> a_id = ''a2'', a_first_name = ''Emily'', a_family_name = ''Bronte'',
            a_date_of_birth = None, a_date_of_death = None \<rparr>]
   \<and> length (authors store0) = 2"
  by (simp add: author_delete_post_def books_by_author_def project_title_summary_def store0_def)

text \<open>
  C5 (as the code has it). A delete-submit whose body names the same identifier as the
  path, addressed to a stored entity with no dependents, removes exactly that one
  document: the collection loses the document found under the identifier and keeps all
  others in order, the other three collections are untouched, and the response is a
  redirect to the list of the kind. For a BookInstance no dependent check is made.
\<close>

theorem delete_removes_the_named_document:
  "(findById g_id i (genres s) = Some g \<and> books_in_genre i s = [] \<longrightarrow>
      (\<exists>xs ys. genres s = xs @ g # ys
         \<and> genre_delete_post s i i = (s\<lparr>genres := xs @ ys\<rparr>, [Redirect ''/catalog/genres''])))
   \<and> (findById a_id i (authors s) = Some a \<and> books_by_author i s = [] \<longrightarrow>
      (\<exists>xs ys. authors s = xs @ a # ys
         \<and> author_delete_post s i i = (s\<lparr>authors := xs @ ys\<rparr>, [Redirect ''/catalog/authors''])))
   \<and> (findById b_id i (books s) = Some b \<and> instances_of_book i s = [] \<longrightarrow>
      (\<exists>xs ys. books s = xs @ b # ys
         \<and> book_delete_post s i i = (s\<lparr>books := xs @ ys\<rparr>, [Redirect ''/catalog/books''])))
   \<and> (findById i_id i (bookinstances s) = Some bi \<longrightarrow>
      (\<exists>xs ys. bookinstances s = xs @ bi # ys
         \<and> bookinstance_delete_post s i i
             = (s\<lparr>bookinstances := xs @ ys\<rparr>, [Redirect ''/catalog/bookinstances''])))"
proof (intro conjI impI)
  assume h: "findById g_id i (genres s) = Some g \<and> books_in_genre i s = []"
  then obtain xs ys where "genres s = xs @ g # ys" "findByIdAndRemove g_id i (genres s) = xs @ ys"
    using findByIdAndRemove_split [of g_id i "genres s" g] by blast
  with h show "\<exists>xs ys. genres s = xs @ g # ys
         \<and> genre_delete_post s i i = (s\<lparr>genres := xs @ ys\<rparr>, [Redirect ''/catalog/genres''])"
    by (intro exI [of _ xs] exI [of _ ys]) (simp add: genre_delete_post_def)
next
  assume h: "findById a_id i (authors s) = Some a \<and> books_by_author i s = []"
  then obtain xs ys where "authors s = xs @ a # ys" "findByIdAndRemove a_id i (authors s) = xs @ ys"
    using findByIdAndRemove_split [of a_id i "authors s" a] by blast
  with h show "\<exists>xs ys. authors s = xs @ a # ys
         \<and> author_delete_post s i i = (s\<lparr>authors := xs @ ys\<rparr>, [Redirect ''/catalog/authors''])"
    by (intro exI [of _ xs] exI [of _ ys]) (simp add: author_delete_post_def)
next
  assume h: "findById b_id i (books s) = Some b \<and> instances_of_book i s = []"
  then obtain xs ys where "books s = xs @ b # ys" "findByIdAndRemove b_id i (books s) = xs @ ys"
    using findByIdAndRemove_split [of b_id i "books s" b] by blast
  with h show "\<exists>xs ys. books s = xs @ b # ys
         \<and> book_delete_post s i i = (s\<lparr>books := xs @ ys\<rparr>, [Redirect ''/catalog/books''])"
    by (intro exI [of _ xs] exI [of _ ys]) (simp add: book_delete_post_def Let_def)
next
  assume h: "findById i_id i (bookinstances s) = Some bi"
  then obtain xs ys where "bookinstances s = xs @ bi # ys"
      "findByIdAndRemove i_id i (bookinstances s) = xs @ ys"
    using findByIdAndRemove_split [of i_id i "bookinstances s" bi] by blast
  then show "\<exists>xs ys. bookinstances s = xs @ bi # ys
         \<and> bookinstance_delete_post s i i
             = (s\<lparr>bookinstances := xs @ ys\<rparr>, [Redirect ''/catalog/bookinstances''])"
    by (intro exI [of _ xs] exI [of _ ys]) (simp add: bookinstance_delete_post_def)
qed


theorem delete_removes_the_named_document_witness:
  "findById g_id ''g2'' (genres store0) = Some \<lparr> g_id = ''g2'', g_name = ''Poetry'' \<rparr>
   \<and> books_in_genre ''g2'' store0 = []
   \<and> snd (genre_delete_post store0 ''g2'' ''g2'') = [Redirect ''/catalog/genres'']
   \<and> findById a_id ''a2'' (authors store0)
        = Some \<lparr> a_id = ''a2'', a_first_name = ''Emily'', a_family_name = ''Bronte'',
                 a_date_of_birth = None, a_date_of_death = None \<rparr>
   \<and> books_by_author ''a2'' store0 = []
   \<and> snd (author_delete_post store0 ''a2'' ''a2'') = [Redirect ''/catalog/authors'']
   \<and> findById b_id ''b2'' (books store0)
        = Some \<lparr> b_id = ''b2'', b_title = ''Persuasion'', b_author = ''a1'',
                  b_summary = ''Another novel'', b_isbn = ''456'', b_genre = [] \<rparr>
   \<and> instances_of_book ''b2'' store0 = []
   \<and> snd (book_delete_post store0 ''b2'' ''b2'') = [Redirect ''/catalog/books'']
   \<and> findById i_id ''i1'' (bookinstances store0)
        = Some \<lparr> i_id = ''i1'', i_book = Some ''b1'', i_imprint = ''Print 1'',
                  i_status = ''Available'', i_due_back = None \<rparr>
   \<and> snd (bookinstance_delete_post store0 ''i1'' ''i1'') = [Redirect ''/catalog/bookinstances'']"
proof -
  have g: "findById g_id ''g2'' (genres store0) = Some \<lparr> g_id = ''g2'', g_name = ''Poetry'' \<rparr>
      \<and> books_in_genre ''g2'' store0 = []"
    by (simp add: books_in_genre_def store0_def)
  have a: "findById a_id ''a2'' (authors store0)
        = Some \<lparr> a_id = ''a2'', a_first_name = ''Emily'', a_family_name = ''Bronte'',
                 a_date_of_birth = None, a_date_of_death = None \<rparr>
      \<and> books_by_author ''a2'' store0 = []"
    by (simp add: books_by_author_def store0_def)
  have b: "findById b_id ''b2'' (books store0)
        = Some \<lparr> b_id = ''b2'', b_title = ''Persuasion'', b_author = ''a1'',
                  b_summary = ''Another novel'', b_isbn = ''456'', b_genre = [] \<rparr>
      \<and> instances_of_book ''b2'' store0 = []"
    by (simp add: instances_of_book_def store0_def)
  have i: "findById i_id ''i1'' (bookinstances store0)
        = Some \<lparr> i_id = ''i1'', i_book = Some ''b1'', i_imprint = ''Print 1'',
                  i_status = ''Available'', i_due_back = None \<rparr>"
    by (simp add: store0_def)
  have g': "snd (genre_delete_post store0 ''g2'' ''g2'') = [Redirect ''/catalog/genres'']"
    using g delete_removes_the_named_document [where i = "''g2''" and s = store0
        and g = "\<lparr> g_id = ''g2'', g_name = ''Poetry'' \<rparr>", THEN conjunct1]
    by auto
  have a': "snd (author_delete_post store0 ''a2'' ''a2'') = [Redirect ''/catalog/authors'']"
    using a delete_removes_the_named_document [where i = "''a2''" and s = store0
        and a = "\<lparr> a_id = ''a2'', a_first_name = ''Emily'', a_family_name = ''Bronte'',
                 a_date_of_birth = None, a_date_of_death = None \<rparr>",
        THEN conjunct2, THEN conjunct1]
    by auto
  have b': "snd (book_delete_post store0 ''b2'' ''b2'') = [Redirect ''/catalog/books'']"
    using b delete_removes_the_named_document [where i = "''b2''" and s = store0
        and b = "\<lparr> b_id = ''b2'', b_title = ''Persuasion'', b_author = ''a1'',
                  b_summary = ''Another novel'', b_isbn = ''456'', b_genre = [] \<rparr>",
        THEN conjunct2, THEN conjunct2, THEN conjunct1]
    by auto
  have i': "snd (bookinstance_delete_post store0 ''i1'' ''i1'') = [Redirect ''/catalog/bookinstances'']"
    using i delete_removes_the_named_document [where i = "''i1''" and s = store0
        and bi = "\<lparr> i_id = ''i1'', i_book = Some ''b1'', i_imprint = ''Print 1'',
                  i_status = ''Available'', i_due_back = None \<rparr>",
        THEN conjunct2, THEN conjunct2, THEN conjunct2]
    by auto
  from g a b i g' a' b' i' show ?thesis by simp
qed

text \<open>The handlers remove the document named by the body, not the one named by the
  path: with path \<open>g2\<close> and body \<open>g1\<close> the genre \<open>g2\<close> stays and \<open>g1\<close> goes.\<close>

theorem delete_by_path_id_counterexample:
  "findById g_id ''g2'' (genres store0) = Some \<lparr> g_id = ''g2'', g_name = ''Poetry'' \<rparr>
   \<and> books_in_genre ''g2'' store0 = []
   \<and> genres (fst (genre_delete_post store0 ''g2'' ''g1'')) = [\<lparr> g_id = ''g2'', g_name = ''Poetry'' \<rparr>]"
  by (simp add: genre_delete_post_def books_in_genre_def store0_def)

subsection \<open>Identifiers without a document\<close>

text \<open>For an identifier with no document of the kind, the detail and the update-get
  operations of all four kinds pass a 404 error to \<open>next\<close> and do nothing else.\<close>

lemma absent_document_not_found:
  "(findById g_id i (genres s) = None \<longrightarrow>
      genre_detail s i = (s, [Next (HttpError 404 ''Genre not found'')])
      \<and> genre_update_get s i = (s, [Next (HttpError 404 ''Genre not found'')]))
   \<and> (findById a_id i (authors s) = None \<longrightarrow>
      author_detail s i = (s, [Next (HttpError 404 ''Author not found'')])
      \<and> author_update_get s i = (s, [Next (HttpError 404 ''Author not found'')]))
   \<and> (findById b_id i (books s) = None \<longrightarrow>
      book_detail s i = (s, [Next (HttpError 404 ''Book not found'')])
      \<and> book_update_get s i = (s, [Next (HttpError 404 ''Book not found'')]))
   \<and> (findById i_id i (bookinstances s) = None \<longrightarrow>
      bookinstance_detail s i = (s, [Next (HttpError 404 ''Book copy not found'')])
      \<and> bookinstance_update_get s i = (s, [Next (HttpError 404 ''Book copy not found'')]))"
  by (simp add: genre_detail_def genre_update_get_def author_detail_def author_update_get_def
      book_detail_def book_update_get_def bookinstance_detail_def bookinstance_update_get_def)

text \<open>
  C6. For an identifier with no document, detail and update-get fail with a 404 error,
  while delete-get and delete-submit answer with a redirect to the list of the kind and
  raise no error. The delete-submit handlers of Genre and Author break the second half:
  unlike their GET counterparts and the Book handler they never test the fetched entity
  for \<open>null\<close>. On the catalog whose only book names the unstored genre \<open>g9\<close> and the
  unstored author \<open>a9\<close>, neither identifier has a document, and the delete-submit for
  it renders the confirmation view, with \<open>null\<close> for the entity, instead of
  redirecting to the list.
\<close>

theorem delete_post_absent_renders_confirmation:
  "findById g_id ''g9'' (genres store1) = None
   \<and> genre_delete_post store1 ''g9'' ''g9''
       = (store1,
          [RenderFile ''views/genre-delete.ejs''
             [(''title'', VStr ''Delete Genre''), (''genre'', VNull),
              (''genre_books'', VBookSummaries [(''b1'', ''Emma'', ''A novel'')])]])
   \<and> findById a_id ''a9'' (authors store1) = None
   \<and> author_delete_post store1 ''a9'' ''a9''
       = (store1,
          [RenderFile ''views/author-delete.ejs''
             [(''title'', VStr ''Delete Author''), (''author'', VNull),
              (''author_books'', VBookSummaries [(''b1'', ''Emma'', ''A novel'')])]])"
  by (simp add: genre_delete_post_def genre_delete_view_def books_in_genre_def
      author_delete_post_def author_delete_view_def books_by_author_def
      project_title_summary_def store1_def)

subsection \<open>Creating\<close>

lemma escape_char_length: "1 \<le> length (escape_char c)"
  by simp

lemma escape_length: "length v \<le> length (escape v)"
proof (induction v)
  case Nil
  then show ?case by (simp add: escape_def)
next
  case (Cons c v)
  have "escape (c # v) = escape_char c @ escape v" by (simp add: escape_def)
  with Cons escape_char_length [of c] show ?case by (simp del: escape_char.simps)
qed

lemma genre_validate_value: "fst (genre_validate raw) = escape (trim (toString raw))"
  by (simp add: genre_validate_def chain_text_def Let_def)

lemma genre_validate_accepts:
  "snd (genre_validate raw) = [] \<Longrightarrow> 3 \<le> length (fst (genre_validate raw))"
  using escape_length [of "trim (toString raw)"]
  by (auto simp add: genre_validate_def chain_text_def Let_def isLength_min_def split: if_splits)

lemma find_first_split:
  "List.find P ds = Some d \<Longrightarrow>
   \<exists>xs ys. ds = xs @ d # ys \<and> P d \<and> (\<forall>x \<in> set xs. \<not> P x)"
proof (induction ds)
  case Nil
  then show ?case by simp
next
  case (Cons x ds)
  show ?case
  proof (cases "P x")
    case True
    with Cons.prems have "x = d" by simp
    with True show ?thesis by (intro exI [of _ "[]"] exI [of _ ds]) simp
  next
    case False
    with Cons.prems have "List.find P ds = Some d" by simp
    from Cons.IH [OF this] obtain xs ys where
      "ds = xs @ d # ys" "P d" "\<forall>x \<in> set xs. \<not> P x" by blast
    with False show ?thesis
      by (intro exI [of _ "x # xs"] exI [of _ ys]) auto
  qed
qed

text \<open>
  C7 (as the code has it). When the store holds a Genre whose name the store finds equal,
  under its case-insensitive collation, to the trimmed and escaped submitted name, Genre
  create-submit inserts nothing: the store is returned unchanged. When, in addition, the
  submission passes validation (the trimmed name has at least 3 characters), the
  response is a redirect to the detail location of the first stored Genre with such a
  name.
\<close>

theorem genre_create_collision:
  assumes "g0 \<in> set (genres s)"
    and "collation_equal e (g_name g0) (escape (trim (toString raw)))"
  shows "fst (genre_create_post e s raw) = s
    \<and> (snd (genre_validate raw) = [] \<longrightarrow>
         (\<exists>xs g ys. genres s = xs @ g # ys
            \<and> (\<forall>x \<in> set xs. \<not> collation_equal e (g_name x) (escape (trim (toString raw))))
            \<and> collation_equal e (g_name g) (escape (trim (toString raw)))
            \<and> genre_create_post e s raw = (s, [Redirect (''/catalog/genre/'' @ g_id g)])))"
proof -
  let ?n = "fst (genre_validate raw)"
  from assms have "findOne_genre_ci e ?n (genres s) \<noteq> None"
    by (auto simp add: findOne_genre_ci_def find_None_iff genre_validate_value)
  then obtain g where g: "findOne_genre_ci e ?n (genres s) = Some g" by blast
  then obtain xs ys where split: "genres s = xs @ g # ys"
      "collation_equal e (g_name g) ?n" "\<forall>x \<in> set xs. \<not> collation_equal e (g_name x) ?n"
    using find_first_split [of "\<lambda>g. collation_equal e (g_name g) ?n" "genres s" g]
    by (auto simp add: findOne_genre_ci_def)
  from g have 1: "fst (genre_create_post e s raw) = s"
    by (simp add: genre_create_post_def case_prod_beta Let_def)
  from g have 2: "snd (genre_validate raw) = [] \<Longrightarrow>
      genre_create_post e s raw = (s, [Redirect (''/catalog/genre/'' @ g_id g)])"
    by (simp add: genre_create_post_def case_prod_beta Let_def genre_url_def)
  from 1 2 split show ?thesis
    unfolding genre_validate_value by blast
qed

theorem genre_create_collision_witness:
  "\<lparr> g_id = ''g1'', g_name = ''Fantasy'' \<rparr> \<in> set (genres store0)
   \<and> collation_equal env0 ''Fantasy'' (escape (trim (toString (Some '' fantasy ''))))
   \<and> snd (genre_validate (Some '' fantasy '')) = []
   \<and> fst (genre_create_post env0 store0 (Some '' fantasy '')) = store0
   \<and> (\<exists>u. snd (genre_create_post env0 store0 (Some '' fantasy '')) = [Redirect u])"
proof -
  have a: "\<lparr> g_id = ''g1'', g_name = ''Fantasy'' \<rparr> \<in> set (genres store0)"
    by (simp add: store0_def)
  have l: "map sample_fold ''Fantasy'' = map sample_fold ''fantasy''"
    by code_simp
  have b: "collation_equal env0 (g_name \<lparr> g_id = ''g1'', g_name = ''Fantasy'' \<rparr>)
      (escape (trim (toString (Some '' fantasy ''))))"
    using l by (simp add: env0_def sample_collation_def escape_def trim_def toString_def is_space_def)
  have c: "snd (genre_validate (Some '' fantasy '')) = []"
    by (simp add: genre_validate_def chain_text_def Let_def isLength_min_def trim_def
        toString_def is_space_def)
  from genre_create_collision [OF a b] c
  have "fst (genre_create_post env0 store0 (Some '' fantasy '')) = store0
      \<and> (\<exists>u. snd (genre_create_post env0 store0 (Some '' fantasy '')) = [Redirect u])"
    by auto
  with a b c show ?thesis by simp
qed

text \<open>Without the validity condition the redirect fails: the stored name \<open>&amp;\<close> is
  what the submission \<open>&\<close> is escaped to, but the submission has one character, so the
  form is rendered again with the length error.\<close>

theorem genre_create_short_name_counterexample:
  "collation_equal env0 (g_name \<lparr> g_id = ''g1'', g_name = ''&amp;'' \<rparr>) (escape (trim ''&''))
   \<and> genre_create_post env0 store2 (Some ''&'')
       = (store2,
          [RenderFile ''views/genre-form.ejs''
             [(''title'', VStr ''Create Genre''),
              (''genre'', VGenre \<lparr> g_id = ''n1'', g_name = ''&amp;'' \<rparr>),
              (''errors'', VErrors [\<lparr> err_path = ''name'',
                  err_msg = ''Genre name must contain at least 3 characters'',
                  err_value = ''&'' \<rparr>])]])"
  by (simp add: genre_create_post_def genre_validate_def chain_text_def Let_def isLength_min_def
      trim_def toString_def is_space_def escape_def sample_collation_def verr_def env0_def)

lemma author_validate_accepts:
  assumes "snd (author_validate e ab) = []"
  shows "author_schema_ok (new_Author i (fst (author_validate e ab)))"
proof -
  let ?f = "chain_name ''first_name'' ''First name must be specified.''
              ''First name has non-alphanumeric characters.'' (first_name ab)"
  let ?l = "chain_name ''family_name'' ''Family name must be specified.''
              ''Family name has non-alphanumeric characters.'' (family_name ab)"
  from assms have "snd ?f = []" "snd ?l = []"
    by (simp_all add: author_validate_def case_prod_beta Let_def)
  then have "fst ?f \<noteq> []" "fst ?l \<noteq> []"
    by (simp_all add: chain_name_accepts)
  then show ?thesis
    by (simp add: author_schema_ok_def new_Author_def author_validate_def case_prod_beta Let_def)
qed

lemma book_validate_accepts:
  assumes "snd (book_validate bb) = []"
  shows "book_schema_ok (new_Book i (fst (book_validate bb)))"
proof -
  let ?t = "chain_text ''title'' ''Title must not be empty.'' 1 (title bb)"
  let ?a = "chain_text ''author'' ''Author must not be empty.'' 1 (author bb)"
  let ?s = "chain_text ''summary'' ''Summary must not be empty.'' 1 (summary bb)"
  let ?i = "chain_text ''isbn'' ''ISBN must not be empty'' 1 (isbn bb)"
  from assms have "snd ?t = []" "snd ?a = []" "snd ?s = []" "snd ?i = []"
    by (simp_all add: book_validate_def case_prod_beta Let_def)
  then have "fst ?t \<noteq> []" "fst ?a \<noteq> []" "fst ?s \<noteq> []" "fst ?i \<noteq> []"
    by (simp_all add: chain_text_accepts)
  then show ?thesis
    by (simp add: book_schema_ok_def new_Book_def book_validate_def case_prod_beta Let_def)
qed

lemma bookinstance_validate_accepts:
  assumes "snd (bookinstance_validate e ib) = []"
    and "castObjectId e (escape (trim (toString (book ib)))) \<noteq> None"
    and "chain_escape (status ib) \<in> set status_enum"
  shows "bookinstance_schema_ok (new_BookInstance e i (fst (bookinstance_validate e ib)))"
proof -
  let ?m = "chain_text ''imprint'' ''Imprint must be specified'' 1 (imprint ib)"
  from assms(1) have "snd ?m = []"
    by (simp add: bookinstance_validate_def case_prod_beta Let_def)
  then have "fst ?m \<noteq> []"
    by (simp add: chain_text_accepts)
  moreover from assms(3) have "chain_escape (status ib) \<noteq> []"
    by (auto simp add: status_enum_def)
  ultimately show ?thesis
    using assms(2,3)
    by (simp add: bookinstance_schema_ok_def new_BookInstance_def bookinstance_validate_def
        chain_text_def case_prod_beta Let_def)
qed

lemma genre_ok0: "snd (genre_validate (Some ''Horror'')) = []"
  by (simp add: genre_validate_def chain_text_def Let_def isLength_min_def trim_def
      toString_def is_space_def)

lemma author_ok0: "snd (author_validate env0 author_body0) = []"
  by (simp add: author_validate_def author_body0_def env0_def eval_defs)

lemma book_ok0: "snd (book_validate book_body0) = []"
  by (simp add: book_validate_def book_body0_def eval_defs)

lemma bookinstance_ok0: "snd (bookinstance_validate env0 bookinstance_body0) = []"
  by (simp add: bookinstance_validate_def bookinstance_body0_def env0_def eval_defs)

text \<open>
  C3 (as the code has it). A create-submit whose validation succeeds and whose candidate
  the schema accepts at \<open>save\<close> appends exactly one new entity, the candidate, to the
  collection of its kind and leaves everything else as it was. For a Genre this needs no
  stored Genre whose name the store finds equal to the escaped name, and an escaped
  name of at most 100 characters; for a BookInstance it needs the book text to cast to
  an identifier and the escaped status to be one of the four values of the schema.
  A Book and a BookInstance redirect to the detail location of the new entity, an
  Author redirects to the author list \<open>/catalog/authors\<close>, and a Genre answers with a
  redirect.
\<close>

theorem valid_create_persists_one:
  "(snd (genre_validate raw) = []
      \<and> (\<forall>g \<in> set (genres s). \<not> collation_equal e (g_name g) (escape (trim (toString raw))))
      \<and> length (escape (trim (toString raw))) \<le> 100 \<longrightarrow>
      fst (genre_create_post e s raw)
        = s\<lparr>genres := genres s @ [\<lparr> g_id = newid e, g_name = escape (trim (toString raw)) \<rparr>]\<rparr>
      \<and> (\<exists>u. snd (genre_create_post e s raw) = [Redirect u]))
   \<and> (snd (author_validate e ab) = [] \<longrightarrow>
      author_create_post e s ab =
        (s\<lparr>authors := authors s @ [new_Author (newid e) (fst (author_validate e ab))]\<rparr>,
         [Redirect ''/catalog/authors'']))
   \<and> (snd (book_validate bb) = [] \<longrightarrow>
      book_create_post e s bb =
        (s\<lparr>books := books s @ [new_Book (newid e) (fst (book_validate bb))]\<rparr>,
         [Redirect (''/catalog/book/'' @ newid e)]))
   \<and> (snd (bookinstance_validate e ib) = []
      \<and> castObjectId e (escape (trim (toString (book ib)))) \<noteq> None
      \<and> chain_escape (status ib) \<in> set status_enum \<longrightarrow>
      bookinstance_create_post e s ib =
        (s\<lparr>bookinstances := bookinstances s
            @ [new_BookInstance e (newid e) (fst (bookinstance_validate e ib))]\<rparr>,
         [Redirect (''/catalog/bookinstance/'' @ newid e)]))"
proof (intro conjI impI)
  assume h: "snd (genre_validate raw) = []
      \<and> (\<forall>g \<in> set (genres s). \<not> collation_equal e (g_name g) (escape (trim (toString raw))))
      \<and> length (escape (trim (toString raw))) \<le> 100"
  then have none: "findOne_genre_ci e (fst (genre_validate raw)) (genres s) = None"
    by (simp add: findOne_genre_ci_def find_None_iff genre_validate_value)
  from h have "3 \<le> length (fst (genre_validate raw))"
    by (simp add: genre_validate_accepts)
  with h have ok: "genre_schema_ok \<lparr> g_id = newid e, g_name = fst (genre_validate raw) \<rparr>"
    by (auto simp add: genre_schema_ok_def genre_validate_value)
  from h none ok show "fst (genre_create_post e s raw)
        = s\<lparr>genres := genres s @ [\<lparr> g_id = newid e, g_name = escape (trim (toString raw)) \<rparr>]\<rparr>"
    by (simp add: genre_create_post_def case_prod_beta Let_def genre_validate_value)
  from h none ok show "\<exists>u. snd (genre_create_post e s raw) = [Redirect u]"
    by (simp add: genre_create_post_def case_prod_beta Let_def)
next
  assume h: "snd (author_validate e ab) = []"
  from author_validate_accepts [OF h, of "newid e"] h
  show "author_create_post e s ab =
        (s\<lparr>authors := authors s @ [new_Author (newid e) (fst (author_validate e ab))]\<rparr>,
         [Redirect ''/catalog/authors''])"
    by (simp add: author_create_post_def case_prod_beta Let_def)
next
  assume h: "snd (book_validate bb) = []"
  have "b_id (new_Book (newid e) (fst (book_validate bb))) = newid e"
    by (simp add: new_Book_def case_prod_beta)
  with book_validate_accepts [OF h, of "newid e"] h
  show "book_create_post e s bb =
        (s\<lparr>books := books s @ [new_Book (newid e) (fst (book_validate bb))]\<rparr>,
         [Redirect (''/catalog/book/'' @ newid e)])"
    by (simp add: book_create_post_def case_prod_beta Let_def book_url_def)
next
  assume h: "snd (bookinstance_validate e ib) = []
      \<and> castObjectId e (escape (trim (toString (book ib)))) \<noteq> None
      \<and> chain_escape (status ib) \<in> set status_enum"
  have "i_id (new_BookInstance e (newid e) (fst (bookinstance_validate e ib))) = newid e"
    by (simp add: new_BookInstance_def case_prod_beta)
  with bookinstance_validate_accepts [of e ib "newid e"] h
  show "bookinstance_create_post e s ib =
        (s\<lparr>bookinstances := bookinstances s
            @ [new_BookInstance e (newid e) (fst (bookinstance_validate e ib))]\<rparr>,
         [Redirect (''/catalog/bookinstance/'' @ newid e)])"
    by (simp add: bookinstance_create_post_def case_prod_beta Let_def bookinstance_url_def)
qed

theorem valid_create_persists_one_witness:
  "snd (genre_validate (Some ''Horror'')) = []
   \<and> map g_name (genres store0) = [''Fantasy'', ''Poetry'']
   \<and> \<not> collation_equal env0 ''Fantasy'' (escape (trim (toString (Some ''Horror''))))
   \<and> \<not> collation_equal env0 ''Poetry'' (escape (trim (toString (Some ''Horror''))))
   \<and> length (escape (trim (toString (Some ''Horror'')))) \<le> 100
   \<and> genres (fst (genre_create_post env0 store0 (Some ''Horror'')))
       = genres store0 @ [\<lparr> g_id = ''n1'', g_name = ''Horror'' \<rparr>]
   \<and> snd (author_validate env0 author_body0) = []
   \<and> snd (author_create_post env0 store0 author_body0) = [Redirect ''/catalog/authors'']
   \<and> snd (book_validate book_body0) = []
   \<and> snd (book_create_post env0 store0 book_body0) = [Redirect ''/catalog/book/n1'']
   \<and> snd (bookinstance_validate env0 bookinstance_body0) = []
   \<and> castObjectId env0 (escape (trim (toString (book bookinstance_body0)))) \<noteq> None
   \<and> chain_escape (status bookinstance_body0) \<in> set status_enum
   \<and> snd (bookinstance_create_post env0 store0 bookinstance_body0)
       = [Redirect ''/catalog/bookinstance/n1'']"
proof -
  have x: "escape (trim (toString (Some ''Horror''))) = ''Horror''"
    by (simp add: eval_defs)
  have g: "\<forall>g \<in> set (genres store0).
         \<not> collation_equal env0 (g_name g) (escape (trim (toString (Some ''Horror''))))"
    unfolding x by (simp add: store0_def env0_def sample_collation_def sample_fold_def code_unit_def)
  have i: "castObjectId env0 (escape (trim (toString (book bookinstance_body0)))) \<noteq> None"
    "chain_escape (status bookinstance_body0) \<in> set status_enum"
    by (simp_all add: bookinstance_body0_def status_enum_def castObjectId_def env0_def eval_defs)
  have n: "newid env0 = ''n1''" by (simp add: env0_def)
  have 1: "genres (fst (genre_create_post env0 store0 (Some ''Horror'')))
       = genres store0 @ [\<lparr> g_id = ''n1'', g_name = ''Horror'' \<rparr>]"
    using genre_ok0 g x n
      valid_create_persists_one [where raw = "Some ''Horror''" and s = store0 and e = env0,
        THEN conjunct1]
    by simp
  have 2: "snd (author_create_post env0 store0 author_body0) = [Redirect ''/catalog/authors'']"
    using author_ok0
      valid_create_persists_one [where ab = author_body0 and s = store0 and e = env0,
        THEN conjunct2, THEN conjunct1]
    by simp
  have 3: "snd (book_create_post env0 store0 book_body0) = [Redirect ''/catalog/book/n1'']"
    using book_ok0 n
      valid_create_persists_one [where bb = book_body0 and s = store0 and e = env0,
        THEN conjunct2, THEN conjunct2, THEN conjunct1]
    by simp
  have 4: "snd (bookinstance_create_post env0 store0 bookinstance_body0)
       = [Redirect ''/catalog/bookinstance/n1'']"
    using bookinstance_ok0 i n
      valid_create_persists_one [where ib = bookinstance_body0 and s = store0 and e = env0,
        THEN conjunct2, THEN conjunct2, THEN conjunct2]
    by simp
  have m: "map g_name (genres store0) = [''Fantasy'', ''Poetry'']"
    by (simp add: store0_def)
  have g': "\<not> collation_equal env0 ''Fantasy'' (escape (trim (toString (Some ''Horror''))))"
    "\<not> collation_equal env0 ''Poetry'' (escape (trim (toString (Some ''Horror''))))"
    unfolding x by (simp_all add: env0_def sample_collation_def sample_fold_def code_unit_def)
  from genre_ok0 m g' x author_ok0 book_ok0 bookinstance_ok0 i 1 2 3 4 show ?thesis
    by simp
qed

text \<open>A valid new author is stored, and the redirect is to the author list, not to
  the detail location of the new author.\<close>

theorem author_create_redirect_counterexample:
  "snd (author_validate env0 author_body0) = []
   \<and> author_create_post env0 store0 author_body0
       = (store0\<lparr>authors := authors store0
             @ [\<lparr> a_id = ''n1'', a_first_name = ''Anne'', a_family_name = ''Bronte'',
                  a_date_of_birth = Some 1580428800, a_date_of_death = None \<rparr>]\<rparr>,
          [Redirect ''/catalog/authors''])
   \<and> author_url \<lparr> a_id = ''n1'', a_first_name = ''Anne'', a_family_name = ''Bronte'',
                   a_date_of_birth = Some 1580428800, a_date_of_death = None \<rparr>
       = ''/catalog/author/n1''"
  by (simp add: author_create_post_def author_validate_def new_Author_def author_schema_ok_def
      author_url_def cast_date_def author_body0_def env0_def eval_defs)

subsection \<open>Updating\<close>







subsection \<open>The genre field of a Book submission\<close>

lemma new_Book_genre: "b_genre (new_Book i (fst (book_validate bb))) = map escape (convert_genre (genre bb))"
  by (simp add: new_Book_def book_validate_def case_prod_beta Let_def)

text \<open>
  C9. In Book create-submit and update-submit the genre field is normalized before the
  validators run: an absent field becomes the empty collection, a single value a
  one-element collection, a collection stays as it is. So with the field absent the
  candidate Book has the empty genre list, and when the submission is valid the Book
  that create-submit appends, and the Book that update-submit stores under an existing
  identifier, has the empty genre list.
\<close>

theorem book_genre_normalized:
  "convert_genre GAbsent = [] \<and> convert_genre (GScalar x) = [x] \<and> convert_genre (GArray xs) = xs
   \<and> (genre bb = GScalar x \<longrightarrow> b_genre (new_Book i (fst (book_validate bb))) = [escape x])
   \<and> (genre bb = GAbsent \<longrightarrow>
        b_genre (new_Book i (fst (book_validate bb))) = []
        \<and> (snd (book_validate bb) = [] \<longrightarrow>
             books (fst (book_create_post e s bb))
               = books s @ [new_Book (newid e) (fst (book_validate bb))]
             \<and> b_genre (last (books (fst (book_create_post e s bb)))) = []
             \<and> (findById b_id i (books s) \<noteq> None \<longrightarrow>
                  (\<exists>bk. findById b_id i (books (fst (book_update_post s i bb))) = Some bk
                     \<and> b_genre bk = []))))"
proof -
  have bid: "b_id (new_Book i (fst (book_validate bb))) = i"
    by (simp add: new_Book_def case_prod_beta)
  have c: "snd (book_validate bb) = [] \<Longrightarrow>
      books (fst (book_create_post e s bb)) = books s @ [new_Book (newid e) (fst (book_validate bb))]"
    using book_validate_accepts [of bb "newid e"]
    by (simp add: book_create_post_def case_prod_beta Let_def)
  have u: "snd (book_validate bb) = [] \<Longrightarrow> findById b_id i (books s) \<noteq> None \<Longrightarrow>
      findById b_id i (books (fst (book_update_post s i bb))) = Some (new_Book i (fst (book_validate bb)))"
    using bid
    by (auto simp add: book_update_post_def case_prod_beta Let_def findByIdAndUpdate_found)
  show ?thesis
    using c u by (simp add: new_Book_genre convert_genre_def)
qed

theorem book_genre_normalized_witness:
  "genre book_body0 = GAbsent
   \<and> snd (book_validate book_body0) = []
   \<and> findById b_id ''b1'' (books store0) \<noteq> None
   \<and> b_genre (last (books (fst (book_create_post env0 store0 book_body0)))) = []
   \<and> (\<exists>bk. findById b_id ''b1'' (books (fst (book_update_post store0 ''b1'' book_body0))) = Some bk
         \<and> b_genre bk = [])
   \<and> genre (book_body0\<lparr>genre := GScalar ''g<1''\<rparr>) = GScalar ''g<1''
   \<and> b_genre (new_Book ''b1'' (fst (book_validate (book_body0\<lparr>genre := GScalar ''g<1''\<rparr>))))
       = [''g&lt;1'']"
proof -
  have a: "genre book_body0 = GAbsent" by (simp add: book_body0_def)
  have f: "findById b_id ''b1'' (books store0) \<noteq> None" by (simp add: store0_def)
  have x: "escape ''g<1'' = ''g&lt;1''" by (simp add: escape_def)
  have 1: "b_genre (last (books (fst (book_create_post env0 store0 book_body0)))) = []
      \<and> (\<exists>bk. findById b_id ''b1'' (books (fst (book_update_post store0 ''b1'' book_body0))) = Some bk
            \<and> b_genre bk = [])"
    using a f book_ok0
      book_genre_normalized [where bb = book_body0 and e = env0 and s = store0 and i = "''b1''"]
    by blast
  have 2: "b_genre (new_Book ''b1'' (fst (book_validate (book_body0\<lparr>genre := GScalar ''g<1''\<rparr>))))
       = [escape ''g<1'']"
    using book_genre_normalized [where bb = "book_body0\<lparr>genre := GScalar ''g<1''\<rparr>"
        and x = "''g<1''" and i = "''b1''"]
    by simp
  from a f book_ok0 1 2 x show ?thesis by simp
qed

end
